theory Spec2Isabelle
  imports Main "HOL-Library.AList"
begin

section \<open>Python values, dictionaries and exceptions\<close>

text \<open>
  The hooks of \<^verbatim>\<open>OpenIOC_Import\<close> (importer.py) work on Python values: strings,
  \<^verbatim>\<open>None\<close>, booleans, datetimes, model instances and (ordered) dictionaries keyed by
  strings. An exception is the \<open>Inl\<close> side of a sum.
\<close>

datatype error =
    KeyError | TypeError | ValueError | AttributeError | IndexError
  | External string

text \<open>
  A \<^verbatim>\<open>datetime\<close>: its date and time fields, read as one count of microseconds on the
  calendar, and its \<^verbatim>\<open>tzinfo\<close>, either absent (a naive value) or a fixed offset from
  UTC in minutes.
\<close>

record datetime =
  wallclock :: int
  tzinfo :: "int option"

datatype val =
    NoneV
  | BoolV bool
  | IntV int
  | Str string
  | DateTimeV datetime
  | Instance string "(string \<times> val) list"
  | Dict "(string \<times> val) list"

type_synonym dict = "(string \<times> val) list"

text \<open>
  A \<^verbatim>\<open>DingoObjDict\<close> keeps its keys in insertion order: \<open>d[k] = v\<close> replaces the value
  of a key that is there and appends a new key otherwise, which is \<^const>\<open>AList.update\<close>;
  \<open>k in d\<close> and \<open>d.get(k)\<close> read \<^const>\<open>map_of\<close>.
\<close>

definition getitem :: "('k \<times> 'v) list \<Rightarrow> 'k \<Rightarrow> error + 'v" where
  "getitem d k = (case map_of d k of None \<Rightarrow> Inl KeyError | Some v \<Rightarrow> Inr v)"

text \<open>Sequencing: an exception of the first step ends the computation.\<close>

definition and_then :: "error + 'a \<Rightarrow> ('a \<Rightarrow> error + 'b) \<Rightarrow> error + 'b" where
  "and_then m f = (case m of Inl e \<Rightarrow> Inl e | Inr x \<Rightarrow> f x)"

text \<open>\<open>x[k]\<close> with a string key: only a dictionary can be subscripted that way.\<close>

fun subscript :: "val \<Rightarrow> string \<Rightarrow> error + val" where
  "subscript (Dict d) k = getitem d k"
| "subscript _ k = Inl TypeError"

text \<open>Truth value of a Python value, as \<open>if x:\<close> tests it.\<close>

fun truthy :: "val \<Rightarrow> bool" where
  "truthy NoneV = False"
| "truthy (BoolV b) = b"
| "truthy (IntV n) = (n \<noteq> 0)"
| "truthy (Str s) = (s \<noteq> [])"
| "truthy (Dict d) = (d \<noteq> [])"
| "truthy (DateTimeV t) = True"
| "truthy (Instance c fs) = True"

subsection \<open>\<^verbatim>\<open>str.split\<close>\<close>

text \<open>\<open>s.split(sep)\<close> for a one-character separator: never an empty list.\<close>

fun split :: "char \<Rightarrow> string \<Rightarrow> string list" where
  "split sep [] = [[]]"
| "split sep (c # cs) =
     (if c = sep then [] # split sep cs
      else (case split sep cs of [] \<Rightarrow> [[c]] | w # ws \<Rightarrow> (c # w) # ws))"

text \<open>\<open>s.split(sep, 1)\<close>: at most one cut, at the first separator.\<close>

definition split1 :: "char \<Rightarrow> string \<Rightarrow> string list" where
  "split1 sep s =
     (case dropWhile (\<lambda>c. c \<noteq> sep) s of
        [] \<Rightarrow> [s]
      | _ # rest \<Rightarrow> [takeWhile (\<lambda>c. c \<noteq> sep) s, rest])"

subsection \<open>\<^verbatim>\<open>set_dict\<close>\<close>

text \<open>
  Modelled from the spec: \<^verbatim>\<open>set_dict\<close> is imported from \<^verbatim>\<open>dingos.core.utilities\<close>, which
  is not part of this repository. The spec's Path Dictionary is "a nested mapping from path
  segment (string) to sub-mapping or leaf record, built by splitting a slash-delimited
  search path into ordered segments and inserting a single leaf at the final segment".
  So \<open>set_dict(d, value, 'set', *keys)\<close> walks the keys but the last, entering the
  sub-mapping of a key that is there and creating an empty one otherwise, and stores the
  value under the last key. A key on the way whose value is no mapping cannot be entered
  (a \<^verbatim>\<open>TypeError\<close> in Python); no key at all has no last key.
\<close>

fun set_dict :: "dict \<Rightarrow> val \<Rightarrow> string list \<Rightarrow> error + dict" where
  "set_dict d v [] = Inl IndexError"
| "set_dict d v [k] = Inr (AList.update k v d)"
| "set_dict d v (k # ks) =
     (case map_of d k of
        None \<Rightarrow>
          (case set_dict [] v ks of
             Inl e \<Rightarrow> Inl e
           | Inr sub \<Rightarrow> Inr (AList.update k (Dict sub) d))
      | Some (Dict existing) \<Rightarrow>
          (case set_dict existing v ks of
             Inl e \<Rightarrow> Inl e
           | Inr sub \<Rightarrow> Inr (AList.update k (Dict sub) d))
      | Some _ \<Rightarrow> Inl TypeError)"

section \<open>The IndicatorItem transformer\<close>

text \<open>
  \<^verbatim>\<open>transformer(self, elt_name, contents)\<close>, importer.py lines 161-242. The statements
  run in the source's order, so the first failing lookup decides the exception:
  \<open>contents['Context']['@search'].split("/",1)\<close> unpacked into two names
  (\<^verbatim>\<open>ValueError\<close> when the path has no slash, \<^verbatim>\<open>AttributeError\<close> when it is no string),
  then \<open>contents['Content']['_value']\<close>, \<open>contents['Content']['@type']\<close>,
  \<open>contents['@condition']\<close>, \<open>contents['@id']\<close>, then \<^verbatim>\<open>set_dict\<close>.
\<close>

definition str_split :: "val \<Rightarrow> (char \<Rightarrow> string \<Rightarrow> string list) \<Rightarrow> error + string list" where
  "str_split x f = (case x of Str s \<Rightarrow> Inr (f CHR ''/'' s) | _ \<Rightarrow> Inl AttributeError)"

definition transformer :: "string \<Rightarrow> val \<Rightarrow> error + (string \<times> val)" where
  "transformer elt_name contents =
     (if elt_name \<noteq> ''IndicatorItem'' then Inr (elt_name, contents)
      else
        and_then (subscript contents ''Context'') (\<lambda>context.
        and_then (subscript context ''@search'') (\<lambda>search.
        and_then (str_split search split1) (\<lambda>parts.
        (case parts of
           [document_type, search_term] \<Rightarrow>
             (let search_term = split CHR ''/'' search_term in
              and_then (subscript contents ''Content'') (\<lambda>content.
              and_then (subscript content ''_value'') (\<lambda>search_value.
              and_then (subscript contents ''Content'') (\<lambda>content.
              and_then (subscript content ''@type'') (\<lambda>value_type.
              and_then (subscript contents ''@condition'') (\<lambda>search_condition.
              (let leaf = AList.update ''_value'' search_value
                            (AList.update ''@condition'' search_condition
                              (AList.update ''@value_type'' value_type []))
               in
               and_then (subscript contents ''@id'') (\<lambda>item_id.
               (let result = AList.update ''@id'' item_id [] in
                and_then (set_dict result (Dict leaf) search_term) (\<lambda>result.
                Inr (document_type, Dict result)))))))))))
         | _ \<Rightarrow> Inl ValueError)))))"

text \<open>Reading a nested path of a record, one key after the other.\<close>

fun path_get :: "val \<Rightarrow> string list \<Rightarrow> val option" where
  "path_get v [] = Some v"
| "path_get (Dict d) (k # ks) =
     (case map_of d k of None \<Rightarrow> None | Some w \<Rightarrow> path_get w ks)"
| "path_get _ (k # ks) = None"

section \<open>XML elements and their attributes\<close>

text \<open>
  The external importer hands the hooks nodes of the parsed document: a node has a name,
  its attributes (name and value) and its children in document order. The source walks the
  children as a linked list (\<open>child.children\<close>, then \<open>.next\<close> until \<^verbatim>\<open>None\<close>), which
  is the list here.
\<close>

datatype xml_elt =
  Element (name: string) (properties: "(string \<times> string) list") (children: "xml_elt list")

text \<open>
  Modelled from the spec: \<^verbatim>\<open>extract_attributes\<close> is imported from
  \<^verbatim>\<open>dingos.core.xml_utils\<close>, which is not part of this repository. The spec has the hooks
  "look up" an attribute of the element in its result, under the attribute's name behind
  the given prefix character: the dictionary of the element's attributes, each key
  prefixed. (An element of a well-formed document has no two attributes of one name.)
\<close>

definition extract_attributes :: "xml_elt \<Rightarrow> string \<Rightarrow> (string \<times> string) list" where
  "extract_attributes element prefix_key_char =
     map (\<lambda>(k, v). (prefix_key_char @ k, v)) (properties element)"

section \<open>The identifier and revision extractor\<close>

text \<open>
  Modelled from the spec: \<^verbatim>\<open>timezone.is_aware\<close>, \<^verbatim>\<open>timezone.make_aware\<close> and
  \<^verbatim>\<open>timezone.utc\<close> belong to the web framework. The spec: "if it lacks timezone info,
  attaches UTC". A value is aware when it has a \<^verbatim>\<open>tzinfo\<close>; making it aware sets the
  \<^verbatim>\<open>tzinfo\<close> and leaves the date and time fields as they are.
\<close>

definition utc :: int where
  "utc = 0"

definition is_aware :: "datetime \<Rightarrow> bool" where
  "is_aware v = (tzinfo v \<noteq> None)"

definition make_aware :: "datetime \<Rightarrow> int \<Rightarrow> datetime" where
  "make_aware v tz = v\<lparr>tzinfo := Some tz\<rparr>"

text \<open>The moment an aware value names, in microseconds of UTC.\<close>

definition instant :: "datetime \<Rightarrow> int" where
  "instant v = wallclock v - (case tzinfo v of None \<Rightarrow> 0 | Some m \<Rightarrow> m * 60000000)"

record id_and_rev =
  id_val :: "string option"
  timestamp :: "datetime option"

text \<open>
  \<^verbatim>\<open>id_and_revision_extractor(self, xml_elt)\<close>, importer.py lines 70-106. The framework's
  \<^verbatim>\<open>parse_datetime\<close> is a parameter: on a string it raises, returns \<^verbatim>\<open>None\<close> (the
  string has not the format of a datetime) or returns a datetime. \<^verbatim>\<open>is_aware\<close> on
  \<^verbatim>\<open>None\<close> reads an attribute of \<^verbatim>\<open>None\<close>, an \<^verbatim>\<open>AttributeError\<close>.
\<close>

definition id_and_revision_extractor ::
  "(string \<Rightarrow> error + datetime option) \<Rightarrow> xml_elt \<Rightarrow> error + id_and_rev" where
  "id_and_revision_extractor parse_datetime xml_elt =
     (let result = \<lparr>id_val = None, timestamp = None\<rparr>;
          attributes = extract_attributes xml_elt ''@'';
          result = (case map_of attributes ''@id'' of
                      Some i \<Rightarrow> result\<lparr>id_val := Some i\<rparr>
                    | None \<Rightarrow> result)
      in case map_of attributes ''@last-modified'' of
           None \<Rightarrow> Inr result
         | Some s \<Rightarrow>
             and_then (parse_datetime s) (\<lambda>parsed.
               case parsed of
                 None \<Rightarrow> Inl AttributeError
               | Some naive \<Rightarrow>
                   (let aware = (if \<not> is_aware naive then make_aware naive utc else naive)
                    in Inr (result\<lparr>timestamp := Some aware\<rparr>))))"

section \<open>The embedding predicate\<close>

text \<open>
  \<^verbatim>\<open>cybox_embedding_pred(self, parent, child, ns_mapping)\<close>, importer.py lines 109-159.
  The \<^verbatim>\<open>while\<close> loop over the grandchildren stops (\<^verbatim>\<open>break\<close>) at the first node named
  \<^verbatim>\<open>Context\<close>, whether or not it has a \<^verbatim>\<open>document\<close> attribute; \<open>type_info\<close> starts as
  \<^verbatim>\<open>None\<close>. The result is \<^verbatim>\<open>False\<close>, \<^verbatim>\<open>True\<close> or the string.
\<close>

fun grandchild_type_info :: "xml_elt list \<Rightarrow> val" where
  "grandchild_type_info [] = NoneV"
| "grandchild_type_info (grandchild # next) =
     (if name grandchild = ''Context'' then
        (case map_of (extract_attributes grandchild []) ''document'' of
           Some d \<Rightarrow> Str d
         | None \<Rightarrow> NoneV)
      else grandchild_type_info next)"

definition cybox_embedding_pred :: "xml_elt \<Rightarrow> xml_elt \<Rightarrow> (val \<times> string) list \<Rightarrow> val" where
  "cybox_embedding_pred parent child ns_mapping =
     (let child_attributes = extract_attributes child [] in
      if map_of child_attributes ''id'' \<noteq> None \<and> name child = ''IndicatorItem'' then
        (let type_info = grandchild_type_info (children child) in
         if truthy type_info then type_info else BoolV True)
      else BoolV False)"

section \<open>The hooks of fact creation\<close>

text \<open>
  \<^verbatim>\<open>x in y\<close> for a one-character string \<open>x\<close>: a substring test on a string, a key test on
  a dictionary, a \<^verbatim>\<open>TypeError\<close> on a value that cannot be iterated.
\<close>

fun char_in :: "char \<Rightarrow> val \<Rightarrow> error + bool" where
  "char_in c (Str s) = Inr (c \<in> set s)"
| "char_in c (Dict d) = Inr (map_of d [c] \<noteq> None)"
| "char_in c _ = Inl TypeError"

text \<open>
  \<^verbatim>\<open>attr_ignore_predicate(self, fact_dict)\<close>, importer.py lines 378-403: the first test
  is \<open>'@' in fact_dict['attribute']\<close>, the second a membership in the list of three names.
\<close>

definition attr_ignore_predicate :: "dict \<Rightarrow> error + bool" where
  "attr_ignore_predicate fact_dict =
     and_then (getitem fact_dict ''attribute'') (\<lambda>attribute.
     and_then (char_in CHR ''@'' attribute) (\<lambda>marked.
       if marked then Inr True
       else if attribute \<in> set [Str ''idref'', Str ''id'', Str ''value_type''] then Inr True
       else Inr False))"


section \<open>The importer object and its reference handler\<close>

text \<open>
  The constants that \<open>from dingos import *\<close> brings in are not part of this repository;
  the model takes them as a record of strings.
\<close>

record dingos =
  DINGOS_NAMESPACE_URI :: string
  DINGOS_DEFAULT_ID_NAMESPACE_URI :: string
  DINGOS_GENERIC_FAMILY_NAME :: string

text \<open>
  The attributes of an \<^verbatim>\<open>OpenIOC_Import\<close> object, and \<open>__init__\<close> (importer.py lines
  50-61), which reads the clock (\<open>timezone.now()\<close>, the parameter \<open>now\<close>).
\<close>

record OpenIOC_Import =
  toplevel_attrs :: dict
  namespace_dict :: "(val \<times> string) list"
  iobject_family_name :: string
  iobject_family_revision_name :: string
  create_timestamp :: datetime
  identifier_ns_uri :: string

definition init :: "dingos \<Rightarrow> datetime \<Rightarrow> OpenIOC_Import" where
  "init consts now =
     \<lparr>toplevel_attrs = [],
      namespace_dict = [(NoneV, DINGOS_NAMESPACE_URI consts)],
      iobject_family_name = ''ioc'',
      iobject_family_revision_name = [],
      create_timestamp = now,
      identifier_ns_uri = DINGOS_DEFAULT_ID_NAMESPACE_URI consts\<rparr>"

text \<open>
  \<^verbatim>\<open>reference_handler(self, iobject, fact, attr_info, add_fact_kargs)\<close>, importer.py lines
  262-305; \<open>iobject\<close> and \<open>fact\<close> are not read. The two calls into the host's store,
  \<open>MantisImporter.create_iobject(uid, identifier_ns_uri, timestamp)\<close> and
  \<open>Identifier.objects.get(uid, namespace__uri)\<close>, are parameters that take the store and
  may raise; the first returns the object, whether it existed, and the store after it.
  The handler returns its verdict, the fact-construction arguments and the store.
\<close>

definition reference_handler ::
  "('db \<Rightarrow> val \<Rightarrow> string \<Rightarrow> val \<Rightarrow> error + ((val \<times> bool) \<times> 'db)) \<Rightarrow>
   ('db \<Rightarrow> val \<Rightarrow> string \<Rightarrow> error + val) \<Rightarrow>
   OpenIOC_Import \<Rightarrow> 'db \<Rightarrow> dict \<Rightarrow> dict \<Rightarrow> error + (bool \<times> dict \<times> 'db)" where
  "reference_handler create_iobject Identifier_objects_get self db attr_info add_fact_kargs =
     and_then (getitem attr_info ''idref'') (\<lambda>uid.
     (let namespace_uri = identifier_ns_uri self in
      and_then (getitem attr_info ''@timestamp'') (\<lambda>timestamp.
      and_then (create_iobject db uid namespace_uri timestamp) (\<lambda>((target_mantis_obj, existed), db).
      and_then (Identifier_objects_get db uid namespace_uri) (\<lambda>identifier.
        Inr (True, AList.update ''value_iobject_id'' identifier add_fact_kargs, db))))))"

text \<open>
  \<^verbatim>\<open>fact_handler_list\<close> (importer.py lines 375-376): one pair, whose predicate is
  \<open>"idref" in attr_info.keys()\<close> and whose handler is the reference handler.
\<close>

definition fact_handler_pred :: "dict \<Rightarrow> dict \<Rightarrow> bool" where
  "fact_handler_pred fact_dict attr_info = (map_of attr_info ''idref'' \<noteq> None)"

section \<open>The import\<close>

text \<open>
  What the external \<open>MantisImporter.xml_import\<close> returns: for the top-level element its
  identifier record, name and dictionary, and the same three for each embedded object.
\<close>

record imported =
  id_and_rev_info :: id_and_rev
  elt_name :: string
  dict_repr :: dict

record import_result = imported +
  embedded_objects :: "imported list"

text \<open>The keyword arguments of one \<open>MantisImporter.create_iobject\<close> call of the last
  loop; the three hooks passed as \<open>config_hooks\<close> are the functions above.\<close>

record create_iobject_args =
  arg_iobject_family_name :: string
  arg_iobject_family_revision_name :: string
  arg_iobject_type_name :: string
  arg_iobject_type_namespace_uri :: string
  arg_iobject_type_revision_name :: string
  arg_iobject_data :: dict
  arg_uid :: "string option"
  arg_identifier_ns_uri :: "string option"
  arg_timestamp :: datetime
  arg_create_timestamp :: datetime
  arg_markings :: "val list"
  arg_namespace_dict :: "(val \<times> string) list"

text \<open>
  \<open>self.namespace_dict.get(elt_dict.get('@@ns', None), default)\<close>: a dictionary cannot
  be a key (\<^verbatim>\<open>TypeError\<close>: unhashable); any other value is looked up.
\<close>

definition namespace_get :: "(val \<times> string) list \<Rightarrow> dict \<Rightarrow> string \<Rightarrow> error + string" where
  "namespace_get ns_dict elt_dict dflt =
     (case (case map_of elt_dict ''@@ns'' of None \<Rightarrow> NoneV | Some k \<Rightarrow> k) of
        Dict d \<Rightarrow> Inl TypeError
      | k \<Rightarrow> Inr (case map_of ns_dict k of None \<Rightarrow> dflt | Some uri \<Rightarrow> uri))"

text \<open>
  The last loop of \<^verbatim>\<open>xml_import\<close> (importer.py lines 567-587) over the pending stack:
  the calls it makes, in order, and the exception that ended it, if any. The calls are
  listed as if each returned; one that raises ends the loop there.
\<close>

fun create_iobjects ::
  "dingos \<Rightarrow> OpenIOC_Import \<Rightarrow> string option \<Rightarrow> datetime \<Rightarrow> val list \<Rightarrow> imported list \<Rightarrow>
   create_iobject_args list \<times> error option" where
  "create_iobjects consts self identifier_ns_uri_arg ts markings [] = ([], None)"
| "create_iobjects consts self identifier_ns_uri_arg ts markings (p # pending_stack) =
     (case namespace_get (namespace_dict self) (dict_repr p) (DINGOS_GENERIC_FAMILY_NAME consts) of
        Inl e \<Rightarrow> ([], Some e)
      | Inr iobject_type_namespace_uri \<Rightarrow>
          (let call =
                 \<lparr>arg_iobject_family_name = iobject_family_name self,
                  arg_iobject_family_revision_name = iobject_family_revision_name self,
                  arg_iobject_type_name = elt_name p,
                  arg_iobject_type_namespace_uri = iobject_type_namespace_uri,
                  arg_iobject_type_revision_name = [],
                  arg_iobject_data = dict_repr p,
                  arg_uid = id_val (id_and_rev_info p),
                  arg_identifier_ns_uri = identifier_ns_uri_arg,
                  arg_timestamp = ts,
                  arg_create_timestamp = create_timestamp self,
                  arg_markings = markings,
                  arg_namespace_dict = namespace_dict self\<rparr>;
               (calls, raised) = create_iobjects consts self identifier_ns_uri_arg ts markings pending_stack
           in (call # calls, raised)))"

text \<open>
  \<^verbatim>\<open>xml_import(self, filepath, xml_content, markings, identifier_ns_uri)\<close>, importer.py
  lines 479-587; the argument \<open>identifier_ns_uri\<close> is \<open>identifier_ns_uri_arg\<close> here, the
  attribute \<open>self.identifier_ns_uri\<close> keeps its name. Parameters of the model: the
  constants, the clock's reading \<open>now\<close>, the host's \<open>search_by_re_list\<close> applied to the
  module's list of one pattern (it gives the groups \<open>revision\<close> and \<open>family\<close> of a
  match, or \<^verbatim>\<open>None\<close>), and the external importer run on the file with the hooks, which
  is given the namespace dictionary and returns it with its result (or raises). The model returns the object's attributes after the call, the
  \<open>create_iobject\<close> calls made and the exception that ended the import, if any.

  After the loop that fills the pending stack, the name \<open>id_and_rev_info\<close> is bound to the
  record of the last embedded object, or still to the top-level one when there is none:
  the record of the last entry of the stack.
\<close>

definition xml_import ::
  "dingos \<Rightarrow> datetime \<Rightarrow> (string \<Rightarrow> (string \<times> string) option) \<Rightarrow>
   ((val \<times> string) list \<Rightarrow> error + (import_result \<times> (val \<times> string) list)) \<Rightarrow>
   val list option \<Rightarrow> string option \<Rightarrow>
   OpenIOC_Import \<times> create_iobject_args list \<times> error option" where
  "xml_import consts now search_by_re_list mantis_xml_import markings identifier_ns_uri_arg =
     (let self = init consts now;
          markings = (case markings of None \<Rightarrow> [] | Some [] \<Rightarrow> [] | Some ms \<Rightarrow> ms);
          self = (case identifier_ns_uri_arg of
                    None \<Rightarrow> self
                  | Some uri \<Rightarrow> if uri \<noteq> [] then self\<lparr>identifier_ns_uri := uri\<rparr> else self)
      in
      case mantis_xml_import (namespace_dict self) of
        Inl e \<Rightarrow> (self, [], Some e)
      | Inr (import_result, ns_dict) \<Rightarrow>
          (let self = self\<lparr>namespace_dict := ns_dict\<rparr>;
               top = \<lparr>id_and_rev_info = id_and_rev_info import_result,
                      elt_name = elt_name import_result,
                      dict_repr = dict_repr import_result\<rparr>
           in
           case namespace_get (namespace_dict self) (dict_repr top)
                  ''http://schemas.mandiant.com/unknown/ioc'' of
             Inl e \<Rightarrow> (self, [], Some e)
           | Inr default_ns \<Rightarrow>
               (let self = (case search_by_re_list default_ns of
                              None \<Rightarrow> self
                            | Some (revision, family) \<Rightarrow>
                                self\<lparr>iobject_family_name := family,
                                     iobject_family_revision_name := revision\<rparr>);
                    pending_stack = top # embedded_objects import_result;
                    ts = (case timestamp (id_and_rev_info (last pending_stack)) of
                            Some t \<Rightarrow> t
                          | None \<Rightarrow> create_timestamp self);
                    (calls, raised) = create_iobjects consts self identifier_ns_uri_arg ts markings pending_stack
                in (self, calls, raised))))"

text \<open>
  Two names for the proofs: the object as the first lines of \<^verbatim>\<open>xml_import\<close> leave it
  (lines 506-518: \<open>__init__\<close>, then the namespace argument when it is given and not
  empty), and the pending stack built from the importer's result (lines 553-560).
\<close>

definition configured :: "dingos \<Rightarrow> datetime \<Rightarrow> string option \<Rightarrow> OpenIOC_Import" where
  "configured consts now ns_arg =
     (case ns_arg of
        None \<Rightarrow> init consts now
      | Some uri \<Rightarrow>
          if uri \<noteq> [] then (init consts now)\<lparr>identifier_ns_uri := uri\<rparr> else init consts now)"

definition pending :: "import_result \<Rightarrow> imported list" where
  "pending r =
     \<lparr>id_and_rev_info = id_and_rev_info r, elt_name = elt_name r, dict_repr = dict_repr r\<rparr>
       # embedded_objects r"

section \<open>Sample inputs\<close>

text \<open>
  Concrete inputs on which the theorems below are run: values for the host's constants,
  a time of day in UTC, an importer result with one top-level \<open>ioc\<close> element and given
  embedded objects, an embedded item, and a store of identifiers (pairs of namespace and
  uid) with the two store operations the reference handler calls.
\<close>

definition sample_consts :: dingos where
  "sample_consts =
     \<lparr>DINGOS_NAMESPACE_URI = ''dingos'',
      DINGOS_DEFAULT_ID_NAMESPACE_URI = ''dingos-default'',
      DINGOS_GENERIC_FAMILY_NAME = ''generic''\<rparr>"

definition at_utc :: "int \<Rightarrow> datetime" where
  "at_utc n = \<lparr>wallclock = n, tzinfo = Some utc\<rparr>"

definition sample_importer ::
  "datetime option \<Rightarrow> imported list \<Rightarrow> (val \<times> string) list \<Rightarrow>
   error + (import_result \<times> (val \<times> string) list)" where
  "sample_importer stamp embedded ns =
     Inr (\<lparr>id_and_rev_info = \<lparr>id_val = Some ''ioc-1'', timestamp = stamp\<rparr>,
           elt_name = ''ioc'', dict_repr = [(''short_description'', Str ''sample'')],
           embedded_objects = embedded\<rparr>, ns)"

definition sample_item :: imported where
  "sample_item =
     \<lparr>id_and_rev_info = \<lparr>id_val = Some ''item-1'', timestamp = None\<rparr>,
      elt_name = ''FileItem'', dict_repr = [(''@id'', Str ''item-1'')]\<rparr>"

definition sample_create_iobject ::
  "(string \<times> val) list \<Rightarrow> val \<Rightarrow> string \<Rightarrow> val \<Rightarrow>
   error + ((val \<times> bool) \<times> (string \<times> val) list)" where
  "sample_create_iobject db uid ns stamp =
     Inr ((Instance ''InfoObject'' [(''uid'', uid), (''timestamp'', stamp)],
           (ns, uid) \<in> set db),
          (if (ns, uid) \<in> set db then db else db @ [(ns, uid)]))"

definition sample_Identifier_get :: "(string \<times> val) list \<Rightarrow> val \<Rightarrow> string \<Rightarrow> error + val" where
  "sample_Identifier_get db uid ns =
     (if (ns, uid) \<in> set db
      then Inr (Instance ''Identifier'' [(''namespace'', Str ns), (''uid'', uid)])
      else Inl (External ''DoesNotExist''))"

section \<open>Properties of the transformer\<close>

lemma and_then_simps [simp]:
  "and_then (Inl e) f = Inl e"
  "and_then (Inr x) f = f x"
  by (simp_all add: and_then_def)

lemma split_no_sep: "sep \<notin> set s \<Longrightarrow> split sep s = [s]"
  by (induction s) auto

lemma split_segment:
  "sep \<notin> set s \<Longrightarrow> split sep (s @ sep # rest) = s # split sep rest"
  by (induction s) auto

lemma split1_segment:
  "sep \<notin> set s \<Longrightarrow> split1 sep (s @ sep # rest) = [s, rest]"
  by (simp add: split1_def dropWhile_append3 takeWhile_tail dropWhile_append
      takeWhile_append split: list.splits)

lemma split1_sep: "sep \<in> set s \<Longrightarrow> \<exists>a b. split1 sep s = [a, b]"
  by (auto simp: split1_def dropWhile_eq_Nil_conv split: list.splits)

lemma getitem_Inr: "getitem d k = Inr v \<longleftrightarrow> map_of d k = Some v"
  by (simp add: getitem_def split: option.splits)

lemma subscript_Inr: "subscript x k = Inr v \<longleftrightarrow> (\<exists>d. x = Dict d \<and> map_of d k = Some v)"
  by (cases x) (auto simp: getitem_Inr)

lemma and_then_InrE:
  assumes "and_then m f = Inr y"
  obtains x where "m = Inr x" and "f x = Inr y"
  using assms by (cases m) auto

text \<open>
  C7. The transformer is the identity on every element that is not named
  \<^verbatim>\<open>IndicatorItem\<close>: it returns the pair of the element name and the contents it was
  given, whatever the contents are.
\<close>

theorem transformer_other_element_unchanged:
  "n \<noteq> ''IndicatorItem'' \<Longrightarrow> transformer n contents = Inr (n, contents)"
  by (simp add: transformer_def)

theorem transformer_other_element_unchanged_witness:
  "''FileItem'' \<noteq> ''IndicatorItem'' \<and>
   transformer ''FileItem'' (Dict [(''@id'', Str ''X'')]) =
     Inr (''FileItem'', Dict [(''@id'', Str ''X'')])"
  using transformer_other_element_unchanged [of "''FileItem''" "Dict [(''@id'', Str ''X'')]"]
  by simp

text \<open>
  C1, as the code has it. For an \<^verbatim>\<open>IndicatorItem\<close> whose search path is \<open>A/B/C/D\<close> (four
  segments without a slash), with value \<open>v\<close>, value type \<open>t\<close>, condition \<open>c\<close> and id \<open>i\<close>,
  and whose segment \<open>B\<close> is not the key \<open>@id\<close> of the record itself, the transformer returns
  the name \<open>A\<close> and the record that holds \<open>i\<close> under \<open>@id\<close> and, under the path
  \<open>B\<close>, \<open>C\<close>, \<open>D\<close>, the leaf of \<open>@value_type\<close>, \<open>@condition\<close> and \<open>_value\<close>.
\<close>

theorem transformer_indicator_item_path:
  assumes "CHR ''/'' \<notin> set A" "CHR ''/'' \<notin> set B" "CHR ''/'' \<notin> set C" "CHR ''/'' \<notin> set D"
    and "B \<noteq> ''@id''"
    and "map_of contents ''Context'' = Some (Dict context)"
    and "map_of context ''@search'' = Some (Str (A @ ''/'' @ B @ ''/'' @ C @ ''/'' @ D))"
    and "map_of contents ''Content'' = Some (Dict content)"
    and "map_of content ''_value'' = Some v"
    and "map_of content ''@type'' = Some t"
    and "map_of contents ''@condition'' = Some c"
    and "map_of contents ''@id'' = Some i"
  shows "\<exists>r. transformer ''IndicatorItem'' (Dict contents) = Inr (A, r) \<and>
     path_get r [B, C, D] =
       Some (Dict [(''@value_type'', t), (''@condition'', c), (''_value'', v)]) \<and>
     path_get r [''@id''] = Some i \<and>
     r = Dict [(''@id'', i),
               (B, Dict [(C, Dict [(D,
                  Dict [(''@value_type'', t), (''@condition'', c), (''_value'', v)])])])]"
  using assms
  by (simp add: transformer_def getitem_def str_split_def split1_segment split_segment
      split_no_sep)

theorem transformer_indicator_item_path_witness:
  "\<exists>r. transformer ''IndicatorItem''
      (Dict [(''@id'', Str ''X''), (''@condition'', Str ''contains''),
             (''Context'', Dict [(''@document'', Str ''FileItem''),
                                 (''@search'', Str ''FileItem/PEInfo/Sections/Name'')]),
             (''Content'', Dict [(''@type'', Str ''string''), (''_value'', Str ''.stub'')])]) =
        Inr (''FileItem'', r) \<and>
     path_get r [''PEInfo'', ''Sections'', ''Name''] =
       Some (Dict [(''@value_type'', Str ''string''), (''@condition'', Str ''contains''),
                   (''_value'', Str ''.stub'')]) \<and>
     path_get r [''@id''] = Some (Str ''X'') \<and>
     r = Dict [(''@id'', Str ''X''),
               (''PEInfo'', Dict [(''Sections'', Dict [(''Name'',
                  Dict [(''@value_type'', Str ''string''), (''@condition'', Str ''contains''),
                        (''_value'', Str ''.stub'')])])])]"
  using transformer_indicator_item_path [of "''FileItem''" "''PEInfo''" "''Sections''" "''Name''"
      "[(''@id'', Str ''X''), (''@condition'', Str ''contains''),
        (''Context'', Dict [(''@document'', Str ''FileItem''),
                            (''@search'', Str ''FileItem/PEInfo/Sections/Name'')]),
        (''Content'', Dict [(''@type'', Str ''string''), (''_value'', Str ''.stub'')])]"
      "[(''@document'', Str ''FileItem''), (''@search'', Str ''FileItem/PEInfo/Sections/Name'')]"
      "[(''@type'', Str ''string''), (''_value'', Str ''.stub'')]"
      "Str ''.stub''" "Str ''string''" "Str ''contains''" "Str ''X''"]
  by simp

text \<open>
  The claim as stated, for every path of four segments, fails where the second segment is
  \<open>@id\<close>: the record already holds the item's id, a string, under that key, and the path
  cannot be entered. No record is returned.
\<close>

theorem transformer_indicator_item_path_counterexample:
  "transformer ''IndicatorItem''
      (Dict [(''@id'', Str ''X''), (''@condition'', Str ''contains''),
             (''Context'', Dict [(''@search'', Str ''FileItem/@id/Sections/Name'')]),
             (''Content'', Dict [(''@type'', Str ''string''), (''_value'', Str ''.stub'')])]) =
     Inl TypeError"
  by (simp add: transformer_def getitem_def str_split_def split1_def)

subsection \<open>Malformed IndicatorItem elements\<close>

lemma transformer_returns:
  assumes "transformer ''IndicatorItem'' contents = Inr r"
  shows "\<exists>cs context content search v t c i.
      contents = Dict cs \<and> map_of cs ''Context'' = Some (Dict context) \<and>
      map_of context ''@search'' = Some search \<and>
      map_of cs ''Content'' = Some (Dict content) \<and>
      map_of content ''_value'' = Some v \<and> map_of content ''@type'' = Some t \<and>
      map_of cs ''@condition'' = Some c \<and> map_of cs ''@id'' = Some i"
  using assms
  apply (simp add: transformer_def)
  apply (erule and_then_InrE)+
  apply (simp split: list.splits add: Let_def)
  apply (erule and_then_InrE)+
  apply (auto simp: subscript_Inr)
  done

lemma transformer_missing_KeyError:
  assumes missing:
      "map_of cs ''Context'' = None \<or> map_of cs ''Content'' = None \<or>
       map_of cs ''@condition'' = None \<or> map_of cs ''@id'' = None \<or>
       (\<exists>context. map_of cs ''Context'' = Some (Dict context) \<and>
          map_of context ''@search'' = None) \<or>
       (\<exists>content. map_of cs ''Content'' = Some (Dict content) \<and>
          (map_of content ''_value'' = None \<or> map_of content ''@type'' = None))"
    and ctx: "\<forall>x. map_of cs ''Context'' = Some x \<longrightarrow>
       (\<exists>context. x = Dict context \<and>
          (\<forall>y. map_of context ''@search'' = Some y \<longrightarrow>
             (\<exists>s. y = Str s \<and> CHR ''/'' \<in> set s)))"
    and cnt: "\<forall>x. map_of cs ''Content'' = Some x \<longrightarrow> (\<exists>content. x = Dict content)"
  shows "transformer ''IndicatorItem'' (Dict cs) = Inl KeyError"
proof (cases "map_of cs ''Context''")
  case None
  then show ?thesis by (simp add: transformer_def getitem_def)
next
  case (Some x)
  with ctx obtain d where x: "x = Dict d"
    and search: "\<forall>y. map_of d ''@search'' = Some y \<longrightarrow> (\<exists>s. y = Str s \<and> CHR ''/'' \<in> set s)"
    by blast
  show ?thesis
  proof (cases "map_of d ''@search''")
    case None
    with Some x show ?thesis by (simp add: transformer_def getitem_def)
  next
    case search_some: (Some y)
    with search obtain s where y: "y = Str s" and "CHR ''/'' \<in> set s" by blast
    then obtain a b where parts: "split1 CHR ''/'' s = [a, b]"
      using split1_sep by blast
    have step: "transformer ''IndicatorItem'' (Dict cs) =
        and_then (subscript (Dict cs) ''Content'') (\<lambda>content.
        and_then (subscript content ''_value'') (\<lambda>search_value.
        and_then (subscript (Dict cs) ''Content'') (\<lambda>content.
        and_then (subscript content ''@type'') (\<lambda>value_type.
        and_then (subscript (Dict cs) ''@condition'') (\<lambda>search_condition.
        and_then (subscript (Dict cs) ''@id'') (\<lambda>item_id.
        and_then (set_dict (AList.update ''@id'' item_id [])
           (Dict (AList.update ''_value'' search_value
                   (AList.update ''@condition'' search_condition
                     (AList.update ''@value_type'' value_type []))))
           (split CHR ''/'' b)) (\<lambda>result.
        Inr (a, Dict result))))))))"
      using Some x search_some y parts
      by (simp add: transformer_def getitem_def str_split_def Let_def)
    show ?thesis
    proof (cases "map_of cs ''Content''")
      case None
      then show ?thesis by (simp add: step getitem_def)
    next
      case content_some: (Some z)
      with cnt obtain d2 where z: "z = Dict d2" by blast
      from missing Some x search_some content_some z
      have "map_of d2 ''_value'' = None \<or> map_of d2 ''@type'' = None \<or>
            map_of cs ''@condition'' = None \<or> map_of cs ''@id'' = None"
        by auto
      then show ?thesis
        using content_some z
        by (auto simp: step getitem_def split: option.splits)
    qed
  qed
qed

text \<open>
  C8, as the code has it. An \<^verbatim>\<open>IndicatorItem\<close> whose contents lack \<open>Context\<close>, \<open>Content\<close>,
  \<open>@condition\<close>, \<open>@id\<close>, the \<open>@search\<close> of \<open>Context\<close>, or the \<open>_value\<close> or \<open>@type\<close> of
  \<open>Content\<close> never gets a result: the transformer raises. The exception is the lookup
  error (\<^verbatim>\<open>KeyError\<close>) when the parts that are there have the expected shape: \<open>Context\<close>
  and \<open>Content\<close> are dictionaries and \<open>@search\<close> is a string with a slash.
\<close>

theorem transformer_malformed_raises:
  assumes
      "map_of cs ''Context'' = None \<or> map_of cs ''Content'' = None \<or>
       map_of cs ''@condition'' = None \<or> map_of cs ''@id'' = None \<or>
       (\<exists>context. map_of cs ''Context'' = Some (Dict context) \<and>
          map_of context ''@search'' = None) \<or>
       (\<exists>content. map_of cs ''Content'' = Some (Dict content) \<and>
          (map_of content ''_value'' = None \<or> map_of content ''@type'' = None))"
  shows "(\<exists>e. transformer ''IndicatorItem'' (Dict cs) = Inl e) \<and>
     ((\<forall>x. map_of cs ''Context'' = Some x \<longrightarrow>
         (\<exists>context. x = Dict context \<and>
            (\<forall>y. map_of context ''@search'' = Some y \<longrightarrow>
               (\<exists>s. y = Str s \<and> CHR ''/'' \<in> set s)))) \<and>
      (\<forall>x. map_of cs ''Content'' = Some x \<longrightarrow> (\<exists>content. x = Dict content)) \<longrightarrow>
      transformer ''IndicatorItem'' (Dict cs) = Inl KeyError)"
proof (intro conjI impI)
  show "\<exists>e. transformer ''IndicatorItem'' (Dict cs) = Inl e"
  proof (cases "transformer ''IndicatorItem'' (Dict cs)")
    case (Inl e)
    then show ?thesis by blast
  next
    case (Inr r)
    from transformer_returns [OF Inr] assms show ?thesis by auto
  qed
next
  assume "(\<forall>x. map_of cs ''Context'' = Some x \<longrightarrow>
         (\<exists>context. x = Dict context \<and>
            (\<forall>y. map_of context ''@search'' = Some y \<longrightarrow>
               (\<exists>s. y = Str s \<and> CHR ''/'' \<in> set s)))) \<and>
      (\<forall>x. map_of cs ''Content'' = Some x \<longrightarrow> (\<exists>content. x = Dict content))"
  with assms show "transformer ''IndicatorItem'' (Dict cs) = Inl KeyError"
    using transformer_missing_KeyError [of cs] by blast
qed

theorem transformer_malformed_raises_witness:
  "map_of [(''@id'', Str ''X''), (''@condition'', Str ''contains''),
           (''Context'', Dict [(''@search'', Str ''FileItem/PEInfo/Name'')])] ''Content'' = None \<and>
   transformer ''IndicatorItem''
     (Dict [(''@id'', Str ''X''), (''@condition'', Str ''contains''),
            (''Context'', Dict [(''@search'', Str ''FileItem/PEInfo/Name'')])]) = Inl KeyError"
  using transformer_malformed_raises
    [of "[(''@id'', Str ''X''), (''@condition'', Str ''contains''),
          (''Context'', Dict [(''@search'', Str ''FileItem/PEInfo/Name'')])]"]
  by simp

text \<open>
  The claim as stated, a lookup error for every such element, fails where the search path
  has no slash: the contents lack \<open>Content\<close>, and the exception is the \<^verbatim>\<open>ValueError\<close> of
  unpacking the split path, raised before \<open>Content\<close> is looked up.
\<close>

theorem transformer_malformed_counterexample:
  "map_of [(''@id'', Str ''X''), (''@condition'', Str ''contains''),
           (''Context'', Dict [(''@search'', Str ''FileItem'')])] ''Content'' = None \<and>
   transformer ''IndicatorItem''
     (Dict [(''@id'', Str ''X''), (''@condition'', Str ''contains''),
            (''Context'', Dict [(''@search'', Str ''FileItem'')])]) = Inl ValueError"
  by (simp add: transformer_def getitem_def str_split_def split1_def)

section \<open>Properties of the attribute hooks\<close>

lemma map_of_prefixed: "map_of (map (\<lambda>(k, v). (p @ k, v)) xs) (p @ k) = map_of xs k"
  by (induction xs) auto

lemma map_of_extract_attributes:
  "map_of (extract_attributes e p) (p @ k) = map_of (properties e) k"
  by (simp add: extract_attributes_def map_of_prefixed)

lemma map_of_extract_attributes_Nil:
  "map_of (extract_attributes e []) k = map_of (properties e) k"
  using map_of_extract_attributes [of e "[]" k] by simp

text \<open>
  C3, as the code has it. For a fact whose attribute key is the string \<open>k\<close>, the
  attribute-suppression predicate returns \<^verbatim>\<open>True\<close> if and only if the character \<open>@\<close>
  occurs somewhere in \<open>k\<close> or \<open>k\<close> is one of \<open>idref\<close>, \<open>id\<close>, \<open>value_type\<close>; it returns
  \<^verbatim>\<open>False\<close> for every other key.
\<close>

theorem attr_ignore_predicate_iff:
  "map_of fact_dict ''attribute'' = Some (Str k) \<Longrightarrow>
   attr_ignore_predicate fact_dict =
     Inr (CHR ''@'' \<in> set k \<or> k \<in> {''idref'', ''id'', ''value_type''})"
  by (auto simp: attr_ignore_predicate_def getitem_def)

theorem attr_ignore_predicate_iff_witness:
  "attr_ignore_predicate [(''term'', Str ''Name''), (''attribute'', Str ''value_type'')] = Inr True \<and>
   attr_ignore_predicate [(''term'', Str ''Name''), (''attribute'', Str ''@timestamp'')] = Inr True \<and>
   attr_ignore_predicate [(''term'', Str ''Name''), (''attribute'', Str ''condition'')] = Inr False"
  using
    attr_ignore_predicate_iff
      [of "[(''term'', Str ''Name''), (''attribute'', Str ''value_type'')]" "''value_type''"]
    attr_ignore_predicate_iff
      [of "[(''term'', Str ''Name''), (''attribute'', Str ''@timestamp'')]" "''@timestamp''"]
    attr_ignore_predicate_iff
      [of "[(''term'', Str ''Name''), (''attribute'', Str ''condition'')]" "''condition''"]
  by simp

text \<open>
  The claim as stated, \<^verbatim>\<open>True\<close> exactly for the three names and the keys with the marker
  as prefix, fails on a key with the marker inside: \<open>a@b\<close> does not start with \<open>@\<close> and
  is none of the three names, and the predicate returns \<^verbatim>\<open>True\<close>.
\<close>

theorem attr_ignore_predicate_counterexample:
  "attr_ignore_predicate [(''term'', Str ''Name''), (''attribute'', Str ''a@b'')] = Inr True \<and>
   take 1 ''a@b'' \<noteq> ''@'' \<and> ''a@b'' \<notin> {''idref'', ''id'', ''value_type''}"
  by (simp add: attr_ignore_predicate_def getitem_def)

lemma grandchild_type_info_find:
  "grandchild_type_info gs =
     (case find (\<lambda>g. name g = ''Context'') gs of
        None \<Rightarrow> NoneV
      | Some g \<Rightarrow>
          (case map_of (properties g) ''document'' of None \<Rightarrow> NoneV | Some d \<Rightarrow> Str d))"
  by (induction gs) (auto simp: map_of_extract_attributes_Nil)

text \<open>
  C4, as the code has it. The embedding predicate returns \<^verbatim>\<open>False\<close> whenever the child is
  not named \<open>IndicatorItem\<close> or has no \<open>id\<close> attribute. For a child named \<open>IndicatorItem\<close>
  with an \<open>id\<close> attribute it looks at the first child element named \<open>Context\<close>: when that
  element has a \<open>document\<close> attribute whose value is not empty, the value is returned; in
  every other case (no such element, no such attribute, an empty value) \<^verbatim>\<open>True\<close>.
\<close>

theorem cybox_embedding_pred_cases:
  "((name child \<noteq> ''IndicatorItem'' \<or> map_of (properties child) ''id'' = None) \<longrightarrow>
      cybox_embedding_pred parent child ns_mapping = BoolV False) \<and>
   (name child = ''IndicatorItem'' \<and> map_of (properties child) ''id'' \<noteq> None \<longrightarrow>
      cybox_embedding_pred parent child ns_mapping =
        (case find (\<lambda>g. name g = ''Context'') (children child) of
           None \<Rightarrow> BoolV True
         | Some g \<Rightarrow>
             (case map_of (properties g) ''document'' of
                None \<Rightarrow> BoolV True
              | Some d \<Rightarrow> if d \<noteq> [] then Str d else BoolV True)))"
  by (auto simp: cybox_embedding_pred_def grandchild_type_info_find
      map_of_extract_attributes_Nil split: option.splits)

theorem cybox_embedding_pred_cases_witness:
  "cybox_embedding_pred (Element ''Indicator'' [] [])
     (Element ''IndicatorItem'' [(''id'', ''b9ef''), (''condition'', ''contains'')]
        [Element ''text'' [] [],
         Element ''Context'' [(''document'', ''FileItem''), (''search'', ''FileItem/Name'')] [],
         Element ''Content'' [(''type'', ''string'')] []]) [] = Str ''FileItem'' \<and>
   cybox_embedding_pred (Element ''ioc'' [] [])
     (Element ''Indicator'' [(''id'', ''a1'')] []) [] = BoolV False"
  using
    cybox_embedding_pred_cases
      [of "Element ''IndicatorItem'' [(''id'', ''b9ef''), (''condition'', ''contains'')]
        [Element ''text'' [] [],
         Element ''Context'' [(''document'', ''FileItem''), (''search'', ''FileItem/Name'')] [],
         Element ''Content'' [(''type'', ''string'')] []]" "Element ''Indicator'' [] []" "[]"]
    cybox_embedding_pred_cases
      [of "Element ''Indicator'' [(''id'', ''a1'')] []" "Element ''ioc'' [] []" "[]"]
  by simp

text \<open>
  The claim as stated, the value of the \<open>document\<close> attribute whenever it is present, fails
  on an attribute that is present and empty: the predicate returns \<^verbatim>\<open>True\<close>, not the
  empty string.
\<close>

theorem cybox_embedding_pred_counterexample:
  "map_of (properties (Element ''Context'' [(''document'', []), (''search'', ''FileItem/Name'')] []))
     ''document'' = Some [] \<and>
   cybox_embedding_pred (Element ''Indicator'' [] [])
     (Element ''IndicatorItem'' [(''id'', ''b9ef''), (''condition'', ''contains'')]
        [Element ''Context'' [(''document'', []), (''search'', ''FileItem/Name'')] [],
         Element ''Content'' [(''type'', ''string'')] []]) [] = BoolV True"
  by (simp add: cybox_embedding_pred_def extract_attributes_def)




section \<open>Properties of the identifier and revision extractor\<close>

lemma id_and_revision_extractor_id:
  assumes "id_and_revision_extractor parse_datetime xml_elt = Inr r"
  shows "id_val r = map_of (properties xml_elt) ''id''"
proof (cases "map_of (properties xml_elt) ''last-modified''")
  case None
  with assms show ?thesis
    by (auto simp: id_and_revision_extractor_def Let_def
        map_of_extract_attributes [of _ "''@''" "''id''", simplified]
        map_of_extract_attributes [of _ "''@''" "''last-modified''", simplified]
        split: option.splits)
next
  case (Some s)
  with assms obtain parsed where "parse_datetime s = Inr parsed"
    and "(case parsed of None \<Rightarrow> Inl AttributeError
          | Some naive \<Rightarrow> Inr (\<lparr>id_val = map_of (properties xml_elt) ''id'',
               timestamp = Some (if \<not> is_aware naive then make_aware naive utc else naive)\<rparr>)) = Inr r"
    by (auto simp: id_and_revision_extractor_def Let_def
        map_of_extract_attributes [of _ "''@''" "''id''", simplified]
        map_of_extract_attributes [of _ "''@''" "''last-modified''", simplified]
        split: option.splits elim!: and_then_InrE)
  then show ?thesis by (auto split: option.splits)
qed

text \<open>
  C6. The extractor's record has the value of the \<open>id\<close> attribute as its id, and
  \<^verbatim>\<open>None\<close> when there is none. Without a \<open>last-modified\<close> attribute the record is
  returned with the timestamp \<^verbatim>\<open>None\<close>: nothing is raised for a missing attribute.
  With a \<open>last-modified\<close> attribute that parses to a datetime without timezone, the
  timestamp is that date and time in UTC; a datetime with a timezone is kept as parsed.
\<close>

theorem id_and_revision_extractor_cases:
  "(map_of (properties xml_elt) ''last-modified'' = None \<longrightarrow>
      id_and_revision_extractor parse_datetime xml_elt =
        Inr \<lparr>id_val = map_of (properties xml_elt) ''id'', timestamp = None\<rparr>) \<and>
   (\<forall>s naive. map_of (properties xml_elt) ''last-modified'' = Some s \<and>
        parse_datetime s = Inr (Some naive) \<and> tzinfo naive = None \<longrightarrow>
      id_and_revision_extractor parse_datetime xml_elt =
        Inr \<lparr>id_val = map_of (properties xml_elt) ''id'',
             timestamp = Some \<lparr>wallclock = wallclock naive, tzinfo = Some utc\<rparr>\<rparr> \<and>
      instant \<lparr>wallclock = wallclock naive, tzinfo = Some utc\<rparr> = wallclock naive) \<and>
   (\<forall>s aware. map_of (properties xml_elt) ''last-modified'' = Some s \<and>
        parse_datetime s = Inr (Some aware) \<and> tzinfo aware \<noteq> None \<longrightarrow>
      id_and_revision_extractor parse_datetime xml_elt =
        Inr \<lparr>id_val = map_of (properties xml_elt) ''id'', timestamp = Some aware\<rparr>) \<and>
   (\<forall>r. id_and_revision_extractor parse_datetime xml_elt = Inr r \<longrightarrow>
      id_val r = map_of (properties xml_elt) ''id'')"
proof (intro conjI allI impI)
  assume "map_of (properties xml_elt) ''last-modified'' = None"
  then show "id_and_revision_extractor parse_datetime xml_elt =
        Inr \<lparr>id_val = map_of (properties xml_elt) ''id'', timestamp = None\<rparr>"
    by (auto simp: id_and_revision_extractor_def Let_def
        map_of_extract_attributes [of _ "''@''" "''id''", simplified]
        map_of_extract_attributes [of _ "''@''" "''last-modified''", simplified]
        split: option.splits)
next
  fix s naive
  assume "map_of (properties xml_elt) ''last-modified'' = Some s \<and>
        parse_datetime s = Inr (Some naive) \<and> tzinfo naive = None"
  then show "id_and_revision_extractor parse_datetime xml_elt =
        Inr \<lparr>id_val = map_of (properties xml_elt) ''id'',
             timestamp = Some \<lparr>wallclock = wallclock naive, tzinfo = Some utc\<rparr>\<rparr>"
    by (auto simp: id_and_revision_extractor_def Let_def is_aware_def make_aware_def
        map_of_extract_attributes [of _ "''@''" "''id''", simplified]
        map_of_extract_attributes [of _ "''@''" "''last-modified''", simplified]
        split: option.splits)
  show "instant \<lparr>wallclock = wallclock naive, tzinfo = Some utc\<rparr> = wallclock naive"
    by (simp add: instant_def utc_def)
next
  fix s aware
  assume "map_of (properties xml_elt) ''last-modified'' = Some s \<and>
        parse_datetime s = Inr (Some aware) \<and> tzinfo aware \<noteq> None"
  then show "id_and_revision_extractor parse_datetime xml_elt =
        Inr \<lparr>id_val = map_of (properties xml_elt) ''id'', timestamp = Some aware\<rparr>"
    by (auto simp: id_and_revision_extractor_def Let_def is_aware_def make_aware_def
        map_of_extract_attributes [of _ "''@''" "''id''", simplified]
        map_of_extract_attributes [of _ "''@''" "''last-modified''", simplified]
        split: option.splits)
next
  fix r
  assume "id_and_revision_extractor parse_datetime xml_elt = Inr r"
  then show "id_val r = map_of (properties xml_elt) ''id''"
    by (rule id_and_revision_extractor_id)
qed

theorem id_and_revision_extractor_cases_witness:
  "id_and_revision_extractor (\<lambda>s. Inr (Some \<lparr>wallclock = 1000, tzinfo = None\<rparr>))
     (Element ''ioc'' [(''id'', ''ioc-1''), (''last-modified'', ''2013-02-20T12:00:00'')] []) =
     Inr \<lparr>id_val = Some ''ioc-1'', timestamp = Some \<lparr>wallclock = 1000, tzinfo = Some 0\<rparr>\<rparr> \<and>
   id_and_revision_extractor (\<lambda>s. Inr (Some \<lparr>wallclock = 1000, tzinfo = Some 60\<rparr>))
     (Element ''ioc'' [(''last-modified'', ''2013-02-20T12:00:00+01:00'')] []) =
     Inr \<lparr>id_val = None, timestamp = Some \<lparr>wallclock = 1000, tzinfo = Some 60\<rparr>\<rparr> \<and>
   id_and_revision_extractor (\<lambda>s. Inr None)
     (Element ''IndicatorItem'' [(''id'', ''b9ef'')] []) =
     Inr \<lparr>id_val = Some ''b9ef'', timestamp = None\<rparr>"
proof (intro conjI)
  show "id_and_revision_extractor (\<lambda>s. Inr (Some \<lparr>wallclock = 1000, tzinfo = None\<rparr>))
     (Element ''ioc'' [(''id'', ''ioc-1''), (''last-modified'', ''2013-02-20T12:00:00'')] []) =
     Inr \<lparr>id_val = Some ''ioc-1'', timestamp = Some \<lparr>wallclock = 1000, tzinfo = Some 0\<rparr>\<rparr>"
    using id_and_revision_extractor_cases
      [of "Element ''ioc'' [(''id'', ''ioc-1''), (''last-modified'', ''2013-02-20T12:00:00'')] []"
          "\<lambda>s. Inr (Some \<lparr>wallclock = 1000, tzinfo = None\<rparr>)",
       THEN conjunct2, THEN conjunct1, rule_format,
       of "''2013-02-20T12:00:00''" "\<lparr>wallclock = 1000, tzinfo = None\<rparr>"]
    by (simp add: utc_def)
  show "id_and_revision_extractor (\<lambda>s. Inr (Some \<lparr>wallclock = 1000, tzinfo = Some 60\<rparr>))
     (Element ''ioc'' [(''last-modified'', ''2013-02-20T12:00:00+01:00'')] []) =
     Inr \<lparr>id_val = None, timestamp = Some \<lparr>wallclock = 1000, tzinfo = Some 60\<rparr>\<rparr>"
    using id_and_revision_extractor_cases
      [of "Element ''ioc'' [(''last-modified'', ''2013-02-20T12:00:00+01:00'')] []"
          "\<lambda>s. Inr (Some \<lparr>wallclock = 1000, tzinfo = Some 60\<rparr>)",
       THEN conjunct2, THEN conjunct2, THEN conjunct1, rule_format,
       of "''2013-02-20T12:00:00+01:00''" "\<lparr>wallclock = 1000, tzinfo = Some 60\<rparr>"]
    by simp
  show "id_and_revision_extractor (\<lambda>s. Inr None)
     (Element ''IndicatorItem'' [(''id'', ''b9ef'')] []) =
     Inr \<lparr>id_val = Some ''b9ef'', timestamp = None\<rparr>"
    using id_and_revision_extractor_cases
      [of "Element ''IndicatorItem'' [(''id'', ''b9ef'')] []" "\<lambda>s. Inr None",
       THEN conjunct1, rule_format]
    by simp
qed

section \<open>Properties of the import\<close>

lemma create_iobjects_args:
  "c \<in> set (fst (create_iobjects consts self ns_arg ts ms ps)) \<Longrightarrow>
     arg_timestamp c = ts \<and> arg_create_timestamp c = create_timestamp self \<and>
     arg_identifier_ns_uri c = ns_arg"
  by (induction ps) (auto split: sum.splits prod.splits)

lemma configured_fields:
  "create_timestamp (configured consts now ns_arg) = now"
  "namespace_dict (configured consts now ns_arg) = [(NoneV, DINGOS_NAMESPACE_URI consts)]"
  "identifier_ns_uri (configured consts now None) = DINGOS_DEFAULT_ID_NAMESPACE_URI consts"
  by (simp_all add: configured_def init_def split: option.splits)

lemma xml_import_cases:
  obtains
    (importer_raised) e where
      "importer [(NoneV, DINGOS_NAMESPACE_URI consts)] = Inl e"
      "xml_import consts now sbrl importer markings ns_arg =
         (configured consts now ns_arg, [], Some e)"
  | (namespace_raised) r nd e where
      "importer [(NoneV, DINGOS_NAMESPACE_URI consts)] = Inr (r, nd)"
      "xml_import consts now sbrl importer markings ns_arg =
         ((configured consts now ns_arg)\<lparr>namespace_dict := nd\<rparr>, [], Some e)"
  | (imported) r nd self ms where
      "importer [(NoneV, DINGOS_NAMESPACE_URI consts)] = Inr (r, nd)"
      "create_timestamp self = now"
      "identifier_ns_uri self = identifier_ns_uri (configured consts now ns_arg)"
      "xml_import consts now sbrl importer markings ns_arg =
         (self,
          create_iobjects consts self ns_arg
            (case timestamp (id_and_rev_info (last (pending r))) of Some t \<Rightarrow> t | None \<Rightarrow> now)
            ms (pending r))"
proof -
  let ?c = "configured consts now ns_arg"
  have unfold: "xml_import consts now sbrl importer markings ns_arg =
     (let self = ?c;
          markings = (case markings of None \<Rightarrow> [] | Some [] \<Rightarrow> [] | Some ms \<Rightarrow> ms)
      in
      case importer (namespace_dict self) of
        Inl e \<Rightarrow> (self, [], Some e)
      | Inr (import_result, ns_dict) \<Rightarrow>
          (let self = self\<lparr>namespace_dict := ns_dict\<rparr>;
               top = \<lparr>id_and_rev_info = id_and_rev_info import_result,
                      elt_name = elt_name import_result,
                      dict_repr = dict_repr import_result\<rparr>
           in
           case namespace_get (namespace_dict self) (dict_repr top)
                  ''http://schemas.mandiant.com/unknown/ioc'' of
             Inl e \<Rightarrow> (self, [], Some e)
           | Inr default_ns \<Rightarrow>
               (let self = (case sbrl default_ns of
                              None \<Rightarrow> self
                            | Some (revision, family) \<Rightarrow>
                                self\<lparr>iobject_family_name := family,
                                     iobject_family_revision_name := revision\<rparr>);
                    pending_stack = top # embedded_objects import_result;
                    ts = (case timestamp (id_and_rev_info (last pending_stack)) of
                            Some t \<Rightarrow> t
                          | None \<Rightarrow> create_timestamp self);
                    (calls, raised) = create_iobjects consts self ns_arg ts markings pending_stack
                in (self, calls, raised))))"
    unfolding xml_import_def configured_def Let_def ..
  show thesis
  proof (cases "importer [(NoneV, DINGOS_NAMESPACE_URI consts)]")
    case (Inl e)
    then show thesis
      using importer_raised [of e] by (simp add: unfold configured_fields)
  next
    case (Inr p)
    obtain r nd where p: "p = (r, nd)" by (cases p)
    show thesis
    proof (cases "namespace_get nd (dict_repr r) ''http://schemas.mandiant.com/unknown/ioc''")
      case (Inl e)
      with Inr p show thesis
        using namespace_raised [of r nd e] by (simp add: unfold configured_fields)
    next
      case default_ns: (Inr default_ns)
      define self where "self = (case sbrl default_ns of
                              None \<Rightarrow> ?c\<lparr>namespace_dict := nd\<rparr>
                            | Some (revision, family) \<Rightarrow>
                                ?c\<lparr>namespace_dict := nd, iobject_family_name := family,
                                     iobject_family_revision_name := revision\<rparr>)"
      have ct: "create_timestamp self = now"
        and ns: "identifier_ns_uri self = identifier_ns_uri ?c"
        by (simp_all add: self_def configured_fields split: option.splits prod.splits)
      have "xml_import consts now sbrl importer markings ns_arg =
         (self,
          create_iobjects consts self ns_arg
            (case timestamp (id_and_rev_info (last (pending r))) of
               Some t \<Rightarrow> t | None \<Rightarrow> create_timestamp self)
            (case markings of None \<Rightarrow> [] | Some [] \<Rightarrow> [] | Some ms \<Rightarrow> ms) (pending r))"
        using Inr p default_ns
        by (simp add: unfold configured_fields self_def [symmetric] pending_def [symmetric]
            split_beta Let_def del: create_iobjects.simps)
      then have "xml_import consts now sbrl importer markings ns_arg =
         (self,
          create_iobjects consts self ns_arg
            (case timestamp (id_and_rev_info (last (pending r))) of Some t \<Rightarrow> t | None \<Rightarrow> now)
            (case markings of None \<Rightarrow> [] | Some [] \<Rightarrow> [] | Some ms \<Rightarrow> ms) (pending r))"
        unfolding ct .
      with Inr p ct ns show thesis
        using imported [of r nd self] by blast
    qed
  qed
qed




lemma last_pending: "last (pending r) \<in> set (pending r)"
  by (simp add: pending_def)

lemma set_pending:
  "p \<in> set (pending r) \<Longrightarrow>
     id_and_rev_info p = id_and_rev_info r \<or> (\<exists>e\<in>set (embedded_objects r). p = e)"
  by (auto simp: pending_def)

text \<open>
  C2, as the code has it. Every record that one call of \<^verbatim>\<open>xml_import\<close> persists is
  created with the same \<open>create_timestamp\<close>, the time read at the start of the call, and
  with the same \<open>timestamp\<close>. That timestamp is a fallback, not the later of two times:
  it is a timestamp extracted from the import when the code finds one, and the time of
  the call otherwise; for an import without embedded objects it is the timestamp of the
  top-level element when that has one, and the time of the call when it has none.
\<close>

theorem xml_import_shared_timestamps:
  "(\<forall>c\<in>set (fst (snd (xml_import consts now sbrl importer markings ns_arg))).
      arg_create_timestamp c = now \<and>
      (\<forall>c'\<in>set (fst (snd (xml_import consts now sbrl importer markings ns_arg))).
         arg_timestamp c = arg_timestamp c') \<and>
      (arg_timestamp c = now \<or>
         (\<exists>r nd. importer (namespace_dict (init consts now)) = Inr (r, nd) \<and>
            (timestamp (id_and_rev_info r) = Some (arg_timestamp c) \<or>
             (\<exists>e\<in>set (embedded_objects r).
                timestamp (id_and_rev_info e) = Some (arg_timestamp c))))) \<and>
      (\<forall>r nd. importer (namespace_dict (init consts now)) = Inr (r, nd) \<and>
           embedded_objects r = [] \<longrightarrow>
           arg_timestamp c = (case timestamp (id_and_rev_info r) of Some t \<Rightarrow> t | None \<Rightarrow> now)))"
proof (cases rule: xml_import_cases [of importer "consts" now sbrl markings ns_arg])
  case (importer_raised e)
  then show ?thesis by simp
next
  case (namespace_raised r nd e)
  then show ?thesis by simp
next
  case (imported r nd self ms)
  let ?ts = "case timestamp (id_and_rev_info (last (pending r))) of Some t \<Rightarrow> t | None \<Rightarrow> now"
  have calls: "fst (snd (xml_import consts now sbrl importer markings ns_arg)) =
      fst (create_iobjects consts self ns_arg ?ts ms (pending r))"
    by (simp add: imported(4))
  have a: "\<forall>c\<in>set (fst (snd (xml_import consts now sbrl importer markings ns_arg))).
      arg_create_timestamp c = now \<and> arg_timestamp c = ?ts"
    unfolding calls
    using create_iobjects_args [of _ "consts" self ns_arg ?ts ms "pending r"] imported(2)
    by auto
  have b: "?ts = now \<or> timestamp (id_and_rev_info r) = Some ?ts \<or>
              (\<exists>e\<in>set (embedded_objects r). timestamp (id_and_rev_info e) = Some ?ts)"
    using set_pending [OF last_pending, of r] by (auto split: option.splits)
  have c: "embedded_objects r = [] \<Longrightarrow>
      ?ts = (case timestamp (id_and_rev_info r) of Some t \<Rightarrow> t | None \<Rightarrow> now)"
    by (simp add: pending_def)
  have imp: "importer (namespace_dict (init consts now)) = Inr (r, nd)"
    using imported(1) by (simp add: init_def)
  show ?thesis
  proof (intro ballI conjI)
    fix x assume x: "x \<in> set (fst (snd (xml_import consts now sbrl importer markings ns_arg)))"
    with a have x_ts: "arg_timestamp x = ?ts" and x_ct: "arg_create_timestamp x = now"
      by blast+
    show "arg_create_timestamp x = now" by (rule x_ct)
    show "arg_timestamp x = now \<or>
         (\<exists>r nd. importer (namespace_dict (init consts now)) = Inr (r, nd) \<and>
            (timestamp (id_and_rev_info r) = Some (arg_timestamp x) \<or>
             (\<exists>e\<in>set (embedded_objects r).
                timestamp (id_and_rev_info e) = Some (arg_timestamp x))))"
      unfolding x_ts using b imp by blast
    show "\<forall>r nd. importer (namespace_dict (init consts now)) = Inr (r, nd) \<and>
           embedded_objects r = [] \<longrightarrow>
           arg_timestamp x = (case timestamp (id_and_rev_info r) of Some t \<Rightarrow> t | None \<Rightarrow> now)"
      unfolding x_ts using c imp by auto
    fix y assume "y \<in> set (fst (snd (xml_import consts now sbrl importer markings ns_arg)))"
    with a x_ts show "arg_timestamp x = arg_timestamp y" by simp
  qed
qed

lemma sample_run:
  "xml_import sample_consts now (\<lambda>s. None) (sample_importer stamp embedded) None None =
     (init sample_consts now,
      create_iobjects sample_consts (init sample_consts now) None
        (case timestamp (id_and_rev_info (last
           (\<lparr>id_and_rev_info = \<lparr>id_val = Some ''ioc-1'', timestamp = stamp\<rparr>,
             elt_name = ''ioc'', dict_repr = [(''short_description'', Str ''sample'')]\<rparr> # embedded))) of
           Some t \<Rightarrow> t | None \<Rightarrow> now) []
        (\<lparr>id_and_rev_info = \<lparr>id_val = Some ''ioc-1'', timestamp = stamp\<rparr>,
           elt_name = ''ioc'', dict_repr = [(''short_description'', Str ''sample'')]\<rparr> # embedded))"
proof -
  have "create_timestamp (init sample_consts now) = now"
    by (simp add: init_def)
  then show ?thesis
    by (simp add: xml_import_def sample_importer_def Let_def namespace_get_def split_beta
        del: create_iobjects.simps cong: option.case_cong)
qed

theorem xml_import_shared_timestamps_witness:
  "map arg_timestamp (fst (snd (xml_import sample_consts (at_utc 2000) (\<lambda>s. None)
       (sample_importer (Some (at_utc 1000)) []) None None))) = [at_utc 1000] \<and>
   map arg_create_timestamp (fst (snd (xml_import sample_consts (at_utc 2000) (\<lambda>s. None)
       (sample_importer (Some (at_utc 1000)) []) None None))) = [at_utc 2000] \<and>
   map arg_timestamp (fst (snd (xml_import sample_consts (at_utc 2000) (\<lambda>s. None)
       (sample_importer None [sample_item]) None None))) = [at_utc 2000, at_utc 2000] \<and>
   map arg_create_timestamp (fst (snd (xml_import sample_consts (at_utc 2000) (\<lambda>s. None)
       (sample_importer None [sample_item]) None None))) = [at_utc 2000, at_utc 2000]"
  using xml_import_shared_timestamps [of sample_consts "at_utc 2000" "\<lambda>s. None" "sample_importer (Some (at_utc 1000)) []" None None]
    xml_import_shared_timestamps [of sample_consts "at_utc 2000" "\<lambda>s. None" "sample_importer None [sample_item]" None None]
  by (simp add: sample_run namespace_get_def init_def sample_item_def)

text \<open>
  The claim as stated, one shared timestamp that is the latest of the extracted one and
  the present, fails both ways. With an element last modified before the import, the
  record's \<open>timestamp\<close> is the extracted, earlier one; with an element dated after the
  import, the record's \<open>create_timestamp\<close> is the time of the import, the earlier one.
\<close>

theorem xml_import_latest_timestamp_counterexample:
  "map arg_timestamp (fst (snd (xml_import sample_consts (at_utc 2000) (\<lambda>s. None)
       (sample_importer (Some (at_utc 1000)) []) None None))) = [at_utc 1000] \<and>
   instant (at_utc 1000) < instant (at_utc 2000) \<and>
   map arg_create_timestamp (fst (snd (xml_import sample_consts (at_utc 2000) (\<lambda>s. None)
       (sample_importer (Some (at_utc 3000)) []) None None))) = [at_utc 2000] \<and>
   instant (at_utc 2000) < instant (at_utc 3000)"
  by (simp add: sample_run namespace_get_def init_def instant_def at_utc_def utc_def)

section \<open>Properties of the reference handler and the namespaces\<close>

text \<open>
  C9. For a fact whose attribute info holds \<open>idref\<close> and the \<open>@timestamp\<close> written by
  the import, the reference handler never returns \<^verbatim>\<open>False\<close>: whenever it returns, the
  verdict is \<^verbatim>\<open>True\<close> and the fact-construction arguments hold, under
  \<open>value_iobject_id\<close>, the identifier that the store gives for the referenced uid in the
  object's namespace, the one under which the object was just resolved or created as a
  placeholder. It returns whenever the two calls into the store do.
\<close>

theorem reference_handler_records_reference:
  assumes "map_of attr_info ''idref'' = Some uid"
    and "map_of attr_info ''@timestamp'' = Some stamp"
  shows "(\<forall>target existed db' ident.
            create_iobject db uid (identifier_ns_uri self) stamp = Inr ((target, existed), db') \<and>
            Identifier_objects_get db' uid (identifier_ns_uri self) = Inr ident \<longrightarrow>
            reference_handler create_iobject Identifier_objects_get self db attr_info add_fact_kargs =
              Inr (True, AList.update ''value_iobject_id'' ident add_fact_kargs, db')) \<and>
         (\<forall>verdict kargs db'.
            reference_handler create_iobject Identifier_objects_get self db attr_info add_fact_kargs =
              Inr (verdict, kargs, db') \<longrightarrow>
            verdict = True \<and>
            (\<exists>ident. Identifier_objects_get db' uid (identifier_ns_uri self) = Inr ident \<and>
               kargs = AList.update ''value_iobject_id'' ident add_fact_kargs \<and>
               map_of kargs ''value_iobject_id'' = Some ident))"
proof -
  have unfold:
    "reference_handler create_iobject Identifier_objects_get self db attr_info add_fact_kargs =
     and_then (create_iobject db uid (identifier_ns_uri self) stamp)
       (\<lambda>((target_mantis_obj, existed), db).
          and_then (Identifier_objects_get db uid (identifier_ns_uri self)) (\<lambda>identifier.
            Inr (True, AList.update ''value_iobject_id'' identifier add_fact_kargs, db)))"
    using assms by (simp add: reference_handler_def getitem_def Let_def)
  have returns: "\<forall>target existed db' ident.
            create_iobject db uid (identifier_ns_uri self) stamp = Inr ((target, existed), db') \<and>
            Identifier_objects_get db' uid (identifier_ns_uri self) = Inr ident \<longrightarrow>
            reference_handler create_iobject Identifier_objects_get self db attr_info add_fact_kargs =
              Inr (True, AList.update ''value_iobject_id'' ident add_fact_kargs, db')"
    by (simp add: unfold)
  have verdict: "\<forall>verdict kargs db'.
            reference_handler create_iobject Identifier_objects_get self db attr_info add_fact_kargs =
              Inr (verdict, kargs, db') \<longrightarrow>
            verdict = True \<and>
            (\<exists>ident. Identifier_objects_get db' uid (identifier_ns_uri self) = Inr ident \<and>
               kargs = AList.update ''value_iobject_id'' ident add_fact_kargs \<and>
               map_of kargs ''value_iobject_id'' = Some ident)"
  proof (intro allI impI)
    fix verdict kargs db'
    assume "reference_handler create_iobject Identifier_objects_get self db attr_info add_fact_kargs =
              Inr (verdict, kargs, db')"
    then obtain created
      where "create_iobject db uid (identifier_ns_uri self) stamp = Inr created"
        and rest: "and_then (Identifier_objects_get (snd created) uid (identifier_ns_uri self))
           (\<lambda>identifier.
               Inr (True, AList.update ''value_iobject_id'' identifier add_fact_kargs, snd created)) =
          Inr (verdict, kargs, db')"
      unfolding unfold by (auto elim!: and_then_InrE simp: split_beta)
    from rest obtain ident
      where "Identifier_objects_get (snd created) uid (identifier_ns_uri self) = Inr ident"
        and "(True, AList.update ''value_iobject_id'' ident add_fact_kargs, snd created) =
             (verdict, kargs, db')"
      by (auto elim!: and_then_InrE)
    then show "verdict = True \<and>
            (\<exists>ident. Identifier_objects_get db' uid (identifier_ns_uri self) = Inr ident \<and>
               kargs = AList.update ''value_iobject_id'' ident add_fact_kargs \<and>
               map_of kargs ''value_iobject_id'' = Some ident)"
      by (auto simp: update_conv')
  qed
  from returns verdict show ?thesis by (rule conjI)
qed

theorem reference_handler_records_reference_witness:
  "reference_handler sample_create_iobject sample_Identifier_get
     (init sample_consts (at_utc 2000)) []
     [(''idref'', Str ''item-1''), (''@timestamp'', DateTimeV (at_utc 1000))]
     [(''fact_term_name'', Str ''Name'')] =
   Inr (True,
        [(''fact_term_name'', Str ''Name''),
         (''value_iobject_id'',
          Instance ''Identifier'' [(''namespace'', Str ''dingos-default''), (''uid'', Str ''item-1'')])],
        [(''dingos-default'', Str ''item-1'')])"
  using reference_handler_records_reference [of "[(''idref'', Str ''item-1''), (''@timestamp'', DateTimeV (at_utc 1000))]"
      "Str ''item-1''" "DateTimeV (at_utc 1000)" sample_create_iobject "[]"
      "init sample_consts (at_utc 2000)" sample_Identifier_get "[(''fact_term_name'', Str ''Name'')]",
      THEN conjunct1, rule_format,
      of "Instance ''InfoObject'' [(''uid'', Str ''item-1''), (''timestamp'', DateTimeV (at_utc 1000))]"
         False "[(''dingos-default'', Str ''item-1'')]"
         "Instance ''Identifier'' [(''namespace'', Str ''dingos-default''), (''uid'', Str ''item-1'')]"]
  by (simp add: sample_create_iobject_def sample_Identifier_get_def init_def sample_consts_def)

text \<open>
  C10. When \<^verbatim>\<open>xml_import\<close> is called with \<open>identifier_ns_uri = None\<close>, every
  \<open>create_iobject\<close> call of its last loop is given \<^verbatim>\<open>None\<close> as the identifier namespace,
  while the object keeps the default namespace in \<open>self.identifier_ns_uri\<close>, and the
  reference handler of that object resolves and creates the referenced objects, and
  fetches their identifiers, under that default namespace: the two namespaces differ.
\<close>

theorem xml_import_None_namespace_differs:
  "identifier_ns_uri (fst (xml_import consts now sbrl importer markings None)) =
     DINGOS_DEFAULT_ID_NAMESPACE_URI consts \<and>
   (\<forall>c\<in>set (fst (snd (xml_import consts now sbrl importer markings None))).
      arg_identifier_ns_uri c = None \<and>
      arg_identifier_ns_uri c \<noteq>
        Some (identifier_ns_uri (fst (xml_import consts now sbrl importer markings None)))) \<and>
   (\<forall>uid stamp. map_of attr_info ''idref'' = Some uid \<and>
       map_of attr_info ''@timestamp'' = Some stamp \<longrightarrow>
       reference_handler create_iobject Identifier_objects_get
         (fst (xml_import consts now sbrl importer markings None)) db attr_info add_fact_kargs =
       and_then (create_iobject db uid (DINGOS_DEFAULT_ID_NAMESPACE_URI consts) stamp)
         (\<lambda>((target_mantis_obj, existed), db).
            and_then (Identifier_objects_get db uid (DINGOS_DEFAULT_ID_NAMESPACE_URI consts))
              (\<lambda>identifier.
                 Inr (True, AList.update ''value_iobject_id'' identifier add_fact_kargs, db))))"
proof -
  have ns: "identifier_ns_uri (fst (xml_import consts now sbrl importer markings None)) =
     DINGOS_DEFAULT_ID_NAMESPACE_URI consts"
    by (cases rule: xml_import_cases [of importer "consts" now sbrl markings None])
       (simp_all add: configured_fields)
  have calls: "\<forall>c\<in>set (fst (snd (xml_import consts now sbrl importer markings None))).
      arg_identifier_ns_uri c = None"
  proof (cases rule: xml_import_cases [of importer "consts" now sbrl markings None])
    case (imported r nd self ms)
    then show ?thesis
      using create_iobjects_args [of _ "consts" self None _ ms "pending r"] by auto
  qed simp_all
  show ?thesis
    using calls by (auto simp: ns reference_handler_def getitem_def Let_def)
qed

theorem xml_import_None_namespace_differs_witness:
  "map arg_identifier_ns_uri (fst (snd (xml_import sample_consts (at_utc 2000) (\<lambda>s. None)
       (sample_importer (Some (at_utc 1000)) [sample_item]) None None))) = [None, None] \<and>
   identifier_ns_uri (fst (xml_import sample_consts (at_utc 2000) (\<lambda>s. None)
       (sample_importer (Some (at_utc 1000)) [sample_item]) None None)) = ''dingos-default'' \<and>
   reference_handler sample_create_iobject sample_Identifier_get
     (fst (xml_import sample_consts (at_utc 2000) (\<lambda>s. None)
       (sample_importer (Some (at_utc 1000)) [sample_item]) None None)) []
     [(''idref'', Str ''item-1''), (''@timestamp'', DateTimeV (at_utc 1000))] [] =
   Inr (True,
        [(''value_iobject_id'',
          Instance ''Identifier'' [(''namespace'', Str ''dingos-default''), (''uid'', Str ''item-1'')])],
        [(''dingos-default'', Str ''item-1'')])"
proof -
  note inst = xml_import_None_namespace_differs [of sample_consts "at_utc 2000" "\<lambda>s. None"
      "sample_importer (Some (at_utc 1000)) [sample_item]" None
      "[(''idref'', Str ''item-1''), (''@timestamp'', DateTimeV (at_utc 1000))]"
      sample_create_iobject sample_Identifier_get "[]" "[]"]
  have run: "fst (snd (xml_import sample_consts (at_utc 2000) (\<lambda>s. None)
       (sample_importer (Some (at_utc 1000)) [sample_item]) None None)) \<noteq> []"
    by (simp add: sample_run namespace_get_def init_def sample_item_def)
  have a: "map arg_identifier_ns_uri (fst (snd (xml_import sample_consts (at_utc 2000) (\<lambda>s. None)
       (sample_importer (Some (at_utc 1000)) [sample_item]) None None))) = [None, None]"
    by (simp add: sample_run namespace_get_def init_def sample_item_def)
  have b: "identifier_ns_uri (fst (xml_import sample_consts (at_utc 2000) (\<lambda>s. None)
       (sample_importer (Some (at_utc 1000)) [sample_item]) None None)) = ''dingos-default''"
    using inst [THEN conjunct1] by (simp add: sample_consts_def)
  have c: "reference_handler sample_create_iobject sample_Identifier_get
     (fst (xml_import sample_consts (at_utc 2000) (\<lambda>s. None)
       (sample_importer (Some (at_utc 1000)) [sample_item]) None None)) []
     [(''idref'', Str ''item-1''), (''@timestamp'', DateTimeV (at_utc 1000))] [] =
   Inr (True,
        [(''value_iobject_id'',
          Instance ''Identifier'' [(''namespace'', Str ''dingos-default''), (''uid'', Str ''item-1'')])],
        [(''dingos-default'', Str ''item-1'')])"
    using inst [THEN conjunct2, THEN conjunct2, rule_format,
        of "Str ''item-1''" "DateTimeV (at_utc 1000)"]
    by (simp add: sample_create_iobject_def sample_Identifier_get_def sample_consts_def)
  from a b c show ?thesis by blast
qed

end
